theory Spec2Isabelle
  imports Complex_Main
begin

section \<open>Python values and exceptions\<close>

text \<open>
  The client in \<^verbatim>\<open>examples/python_client.py\<close> is dynamically typed: a field of
  \<^verbatim>\<open>MapsResult\<close> holds whatever \<^verbatim>\<open>dict.get\<close>, \<^verbatim>\<open>json.loads\<close>,
  \<^verbatim>\<open>float\<close> or \<^verbatim>\<open>int\<close> returned. Values are therefore one datatype.
  A \<^verbatim>\<open>str\<close> value is the list of its code points. The texts the client receives
  (a cell of a row, the text of a response) and the literals of the source are
  \<open>string\<close>s, whose characters are the code points 0..255; received text with code
  points above 255 is outside the model. Decoding JSON can produce any code point from
  such a text, through the escape \<^verbatim>\<open>\uXXXX\<close>. A \<^verbatim>\<open>float\<close> is an IEEE binary64
  value: a rational that the format represents, minus zero, an infinity or NaN. A
  \<^verbatim>\<open>dict\<close> with string keys is an association list in insertion order with
  distinct keys.
\<close>

datatype pyfloat = Finite rat | NegZero | PosInf | NegInf | NaN

datatype pyval =
    PNone
  | PBool bool
  | PInt int
  | PFloat pyfloat
  | PText "nat list"
  | PList "pyval list"
  | PDict "(nat list \<times> pyval) list"

text \<open>The code points of a text, and the \<^verbatim>\<open>str\<close> value with these code points.\<close>

definition codes :: "string \<Rightarrow> nat list" where
  "codes s = map of_char s"

abbreviation PStr :: "string \<Rightarrow> pyval" where
  "PStr s \<equiv> PText (codes s)"

text \<open>
  The text of an f-string is kept as its parts: the literal pieces and the values that are
  interpolated with \<^verbatim>\<open>str()\<close>.
\<close>

datatype fpart = Lit string | Val pyval

text \<open>
  The exceptions the client raises or lets through. \<open>LibraryError\<close> stands for an
  exception raised inside \<^verbatim>\<open>aiohttp\<close> or \<^verbatim>\<open>csv\<close> (connection failure, bad
  HTTP status in \<^verbatim>\<open>raise_for_status\<close>, undecodable body), named by its class.
  The client raises the built-in \<^verbatim>\<open>TimeoutError\<close> when the deadline has passed and
  \<^verbatim>\<open>RuntimeError\<close> both for a refused submission and for a failed job; the message
  tells the two apart.
\<close>

datatype exn =
    ValueError
  | OverflowError
  | JSONDecodeError
  | RecursionError
  | KeyError
  | TypeError
  | AttributeError
  | TimeoutError "fpart list"
  | RuntimeError "fpart list"
  | LibraryError string

text \<open>Sequencing of computations that may raise: the first exception wins.\<close>

definition and_then :: "exn + 'a \<Rightarrow> ('a \<Rightarrow> exn + 'b) \<Rightarrow> exn + 'b" where
  "and_then m f = (case m of Inl e \<Rightarrow> Inl e | Inr v \<Rightarrow> f v)"

section \<open>Built-in string operations\<close>

text \<open>\<^verbatim>\<open>str.isspace\<close> on one character, for the code points below 256.\<close>

definition py_isspace :: "char \<Rightarrow> bool" where
  "py_isspace c = ((of_char c :: nat) \<in> {9, 10, 11, 12, 13, 28, 29, 30, 31, 32, 133, 160})"

text \<open>\<^verbatim>\<open>s.strip()\<close>: whitespace removed at both ends.\<close>

definition strip :: "string \<Rightarrow> string" where
  "strip s = rev (dropWhile py_isspace (rev (dropWhile py_isspace s)))"

text \<open>\<^verbatim>\<open>s.split(sep)\<close> for a one-character separator: never empty, one more piece than
  there are separators.\<close>

fun split :: "char \<Rightarrow> string \<Rightarrow> string list" where
  "split sep [] = [[]]"
| "split sep (c # cs) =
     (if c = sep then [] # split sep cs
      else (case split sep cs of
              [] \<Rightarrow> [[c]]
            | p # ps \<Rightarrow> (c # p) # ps))"

text \<open>\<^verbatim>\<open>s.startswith(p)\<close>.\<close>

definition startswith :: "string \<Rightarrow> string \<Rightarrow> bool" where
  "startswith s p = (take (length p) s = p)"

section \<open>Built-in numeric conversions\<close>

subsection \<open>Rounding a rational to binary64\<close>

text \<open>\<^verbatim>\<open>int.bit_length\<close> of a positive integer.\<close>

function bit_length :: "int \<Rightarrow> int" where
  "bit_length n = (if n \<le> 0 then 0 else 1 + bit_length (n div 2))"
  by pat_completeness auto
termination
  by (relation "measure nat") auto

declare bit_length.simps [simp del]

definition pow2 :: "int \<Rightarrow> rat" where
  "pow2 k = (if 0 \<le> k then 2 ^ nat k else 1 / 2 ^ nat (- k))"

definition pow10 :: "int \<Rightarrow> rat" where
  "pow10 k = (if 0 \<le> k then 10 ^ nat k else 1 / 10 ^ nat (- k))"

text \<open>The integer \<open>e\<close> with \<open>2 ^ e \<le> q < 2 ^ (e + 1)\<close>, for positive \<open>q\<close>.\<close>

definition floor_log2 :: "rat \<Rightarrow> int" where
  "floor_log2 q =
     (let (a, b) = quotient_of q;
          d = bit_length a - bit_length b
      in if pow2 d \<le> q then d else d - 1)"

definition round_half_even :: "rat \<Rightarrow> int" where
  "round_half_even q =
     (let f = \<lfloor>q\<rfloor>; r = q - of_int f
      in if r < 1 / 2 then f
         else if 1 / 2 < r then f + 1
         else if even f then f else f + 1)"

text \<open>
  Round to nearest, ties to even, with 53 bits of precision, exponents from -1022
  (subnormal numbers below) and overflow to infinity from \<open>2 ^ 1024\<close>.
\<close>

definition round64_pos :: "rat \<Rightarrow> rat option" where
  "round64_pos q =
     (let e = max (floor_log2 q) (- 1022);
          ulp = pow2 (e - 52);
          v = of_int (round_half_even (q / ulp)) * ulp
      in if pow2 1024 \<le> v then None else Some v)"

definition round64 :: "bool \<Rightarrow> rat \<Rightarrow> pyfloat" where
  "round64 neg q =
     (if q = 0 then (if neg then NegZero else Finite 0)
      else (case round64_pos q of
              None \<Rightarrow> (if neg then NegInf else PosInf)
            | Some v \<Rightarrow>
                if v = 0 then (if neg then NegZero else Finite 0)
                else Finite (if neg then - v else v)))"

subsection \<open>\<^verbatim>\<open>float(str)\<close>\<close>

definition is_digit :: "char \<Rightarrow> bool" where
  "is_digit c = (48 \<le> (of_char c :: nat) \<and> (of_char c :: nat) \<le> 57)"

definition digit_val :: "char \<Rightarrow> int" where
  "digit_val c = of_char c - 48"

definition int_of_digits :: "string \<Rightarrow> int" where
  "int_of_digits ds = foldl (\<lambda>n c. 10 * n + digit_val c) 0 ds"

text \<open>
  Underscores: allowed only between two digits. The result is the text without them, or
  \<open>None\<close> where \<^verbatim>\<open>float\<close> raises. \<open>prev\<close> is the previous character.
\<close>

fun strip_underscores :: "char option \<Rightarrow> string \<Rightarrow> string option" where
  "strip_underscores prev [] = (if prev = Some CHR ''_'' then None else Some [])"
| "strip_underscores prev (c # cs) =
     (if c = CHR ''_'' then
        (case prev of
           None \<Rightarrow> None
         | Some p \<Rightarrow> if is_digit p then strip_underscores (Some c) cs else None)
      else if prev = Some CHR ''_'' \<and> \<not> is_digit c then None
      else map_option ((#) c) (strip_underscores (Some c) cs))"

text \<open>Whitespace that \<^verbatim>\<open>float\<close> removes at both ends: the ASCII white space, and the
  non-ASCII space characters, which it first replaces by a blank.\<close>

definition float_space :: "char \<Rightarrow> bool" where
  "float_space c = ((of_char c :: nat) \<in> {9, 10, 11, 12, 13, 32, 133, 160})"

definition lower :: "string \<Rightarrow> string" where
  "lower s =
     map (\<lambda>c. if 65 \<le> (of_char c :: nat) \<and> (of_char c :: nat) \<le> 90
              then char_of (of_char c + (32::nat)) else c) s"

text \<open>An optional sign: whether it is a minus, and the rest.\<close>

fun take_sign :: "string \<Rightarrow> bool \<times> string" where
  "take_sign [] = (False, [])"
| "take_sign (c # cs) =
     (if c = CHR ''-'' then (True, cs)
      else if c = CHR ''+'' then (False, cs)
      else (False, c # cs))"

text \<open>
  The exponent part: empty, or \<^verbatim>\<open>e\<close> or \<^verbatim>\<open>E\<close>, an optional sign and at least one
  digit, up to the end of the text.
\<close>

definition parse_exponent :: "string \<Rightarrow> int option" where
  "parse_exponent s =
     (case s of
        [] \<Rightarrow> Some 0
      | c # cs \<Rightarrow>
          if c = CHR ''e'' \<or> c = CHR ''E'' then
            (let (neg, ds) = take_sign cs
             in if ds \<noteq> [] \<and> list_all is_digit ds
                then Some (if neg then - int_of_digits ds else int_of_digits ds)
                else None)
          else None)"

text \<open>
  A decimal literal after the sign: digits, an optional point and more digits, at least
  one digit in all, then the exponent part. The value is exact.
\<close>

definition parse_decimal :: "string \<Rightarrow> rat option" where
  "parse_decimal s =
     (let ip = takeWhile is_digit s;
          r1 = dropWhile is_digit s;
          r2 = (case r1 of [] \<Rightarrow> [] | c # cs \<Rightarrow> if c = CHR ''.'' then cs else r1);
          has_point = (r1 \<noteq> [] \<and> hd r1 = CHR ''.'');
          fp = (if has_point then takeWhile is_digit r2 else []);
          r3 = (if has_point then dropWhile is_digit r2 else r1)
      in if ip = [] \<and> fp = [] then None
         else (case parse_exponent r3 of
                 None \<Rightarrow> None
               | Some ex \<Rightarrow>
                   Some (of_int (int_of_digits (ip @ fp)) * pow10 (ex - int (length fp)))))"

definition float_literal :: "string \<Rightarrow> pyfloat option" where
  "float_literal s =
     (let (neg, body) = take_sign s
      in case parse_decimal body of
           Some q \<Rightarrow> Some (round64 neg q)
         | None \<Rightarrow>
             if lower body = ''inf'' \<or> lower body = ''infinity''
             then Some (if neg then NegInf else PosInf)
             else if lower body = ''nan'' then Some NaN
             else None)"

definition py_float :: "string \<Rightarrow> exn + pyfloat" where
  "py_float s =
     (case strip_underscores None s of
        None \<Rightarrow> Inl ValueError
      | Some t \<Rightarrow>
          (case float_literal (rev (dropWhile float_space (rev (dropWhile float_space t)))) of
             None \<Rightarrow> Inl ValueError
           | Some x \<Rightarrow> Inr x))"

subsection \<open>\<^verbatim>\<open>int(float)\<close>\<close>

text \<open>Truncation towards zero; an infinity raises \<^verbatim>\<open>OverflowError\<close> and NaN raises
  \<^verbatim>\<open>ValueError\<close>.\<close>

fun py_int :: "pyfloat \<Rightarrow> exn + int" where
  "py_int (Finite q) = Inr (if 0 \<le> q then \<lfloor>q\<rfloor> else \<lceil>q\<rceil>)"
| "py_int NegZero = Inr 0"
| "py_int PosInf = Inl OverflowError"
| "py_int NegInf = Inl OverflowError"
| "py_int NaN = Inl ValueError"

section \<open>\<^verbatim>\<open>json.loads\<close>\<close>

text \<open>
  The decoder of the standard library, with its default settings, on a \<^verbatim>\<open>str\<close>: it
  returns the decoded value or raises. The text is cut into tokens and the tokens are read
  from left to right with an explicit stack of open containers; this accepts the same texts
  as the library's recursive scanner, builds the same values and meets the same first
  error.
\<close>

subsection \<open>The interpreter\<close>

text \<open>
  Which exception the decoder raises depends on the interpreter that runs it.

  An integer literal with more digits than \<^verbatim>\<open>sys.get_int_max_str_digits()\<close> raises
  \<^verbatim>\<open>ValueError\<close>; the limit is 0, for none, or at least 640 (4300 unless it is set),
  and interpreters older than the limit behave as with 0.

  The scanner recurses once for each open container, on the stack of the running program,
  and the recursion limit leaves it a room that depends on where the call is made. It
  raises \<^verbatim>\<open>RecursionError\<close> when there is no room to open one more container, or
  to call the hook for one of the constants \<^verbatim>\<open>NaN\<close>, \<^verbatim>\<open>Infinity\<close> and
  \<^verbatim>\<open>-Infinity\<close>. A syntax error is raised as \<^verbatim>\<open>JSONDecodeError\<close>, but building
  that exception takes room as well: where there is none, \<^verbatim>\<open>RecursionError\<close> is
  raised in its place. How much room each of these needs differs between the versions of the
  interpreter and, for a syntax error, between the places of the scanner that find it, so
  the room is a predicate of the model: \<open>room py n d\<close> says that, with \<open>d\<close>
  containers open, the stack has room for \<open>n\<close>. The calls that the client itself
  makes are of a fixed depth and are taken to have room.
\<close>

datatype site =
    BadString
  | ExpectingValue
  | TrailingComma
  | PropertyName
  | Colon
  | Delimiter
  | ExtraData

datatype need = Enter | Constant | Report site

record interpreter =
  int_max_str_digits :: nat
  room :: "need \<Rightarrow> nat \<Rightarrow> bool"

definition syntax_error :: "interpreter \<Rightarrow> site \<Rightarrow> nat \<Rightarrow> exn + pyval" where
  "syntax_error py s d = Inl (if room py (Report s) d then JSONDecodeError else RecursionError)"

text \<open>\<^verbatim>\<open>int\<close> of the digits of an integer literal.\<close>

definition int_literal :: "interpreter \<Rightarrow> bool \<Rightarrow> string \<Rightarrow> exn + int" where
  "int_literal py neg ds =
     (if 0 < int_max_str_digits py \<and> int_max_str_digits py < length ds then Inl ValueError
      else Inr (if neg then - int_of_digits ds else int_of_digits ds))"

subsection \<open>Tokens\<close>

text \<open>
  A string literal is a token with its decoded text, an integer literal with its sign and
  digits, and the three constants are apart from the other atoms, because reading them can
  raise. \<open>TBadString\<close> is a string literal that is not well formed and \<open>TBad\<close> a
  character with which no token begins; the text after either is not looked at.
\<close>

datatype tok =
    TLBrack | TRBrack | TLBrace | TRBrace | TComma | TColon
  | TStr "nat list"
  | TInt bool string
  | TConst pyfloat
  | TAtom pyval
  | TBadString
  | TBad

definition json_ws :: "char \<Rightarrow> bool" where
  "json_ws c = ((of_char c :: nat) \<in> {32, 9, 10, 13})"

definition hex_val :: "char \<Rightarrow> nat option" where
  "hex_val c =
     (let n = (of_char c :: nat)
      in if 48 \<le> n \<and> n \<le> 57 then Some (n - 48)
         else if 97 \<le> n \<and> n \<le> 102 then Some (n - 87)
         else if 65 \<le> n \<and> n \<le> 70 then Some (n - 55)
         else None)"

text \<open>The four hexadecimal digits after \<^verbatim>\<open>\u\<close>.\<close>

definition hex4 :: "string \<Rightarrow> nat option" where
  "hex4 s =
     (case map hex_val (take 4 s) of
        [Some a, Some b, Some c, Some d] \<Rightarrow> Some (((a * 16 + b) * 16 + c) * 16 + d)
      | _ \<Rightarrow> None)"

definition unescape :: "char \<Rightarrow> char option" where
  "unescape e =
     (if e = CHR ''\"'' \<or> e = CHR 0x5C \<or> e = CHR ''/'' then Some e
      else if e = CHR ''b'' then Some (CHR 0x08)
      else if e = CHR ''f'' then Some (CHR 0x0C)
      else if e = CHR ''n'' then Some (CHR 0x0A)
      else if e = CHR ''r'' then Some (CHR 0x0D)
      else if e = CHR ''t'' then Some (CHR 0x09)
      else None)"

definition prepend :: "nat \<Rightarrow> (nat list \<times> string) option \<Rightarrow> (nat list \<times> string) option" where
  "prepend c r = (case r of None \<Rightarrow> None | Some (str, rest) \<Rightarrow> Some (c # str, rest))"

text \<open>
  The body of a string literal, after the opening quote: the decoded code points and what
  follows the closing quote. A control character, a bad escape and a missing closing quote
  are errors. An escaped high surrogate that is followed by an escaped low surrogate is
  one code point with it; any other surrogate stands for itself.
\<close>

fun scanstring :: "string \<Rightarrow> (nat list \<times> string) option" where
  "scanstring [] = None"
| "scanstring (c # cs) =
     (if c = CHR ''\"'' then Some ([], cs)
      else if c = CHR 0x5C then
        (case cs of
           [] \<Rightarrow> None
         | e # es \<Rightarrow>
             if e = CHR ''u'' then
               (case hex4 es of
                  None \<Rightarrow> None
                | Some n \<Rightarrow>
                    if 0xD800 \<le> n \<and> n \<le> 0xDBFF \<and> take 2 (drop 4 es) = [CHR 0x5C, CHR ''u''] then
                      (case hex4 (drop 6 es) of
                         None \<Rightarrow> None
                       | Some m \<Rightarrow>
                           if 0xDC00 \<le> m \<and> m \<le> 0xDFFF
                           then prepend (0x10000 + ((n - 0xD800) * 1024 + (m - 0xDC00)))
                                  (scanstring (drop 10 es))
                           else prepend n (scanstring (drop 4 es)))
                    else prepend n (scanstring (drop 4 es)))
             else
               (case unescape e of
                  None \<Rightarrow> None
                | Some d \<Rightarrow> prepend (of_char d) (scanstring es)))
      else if (of_char c :: nat) < 32 then None
      else prepend (of_char c) (scanstring cs))"

text \<open>
  A number literal is the longest text at this place that matches
  \<^verbatim>\<open>-?(0|[1-9][0-9]*)(\.[0-9]+)?([eE][-+]?[0-9]+)?\<close>: the token and the number of
  characters matched. Without fraction and exponent it is an integer literal, otherwise
  \<^verbatim>\<open>float\<close> of the text matched.
\<close>

definition match_number :: "string \<Rightarrow> (tok \<times> nat) option" where
  "match_number s =
     (let neg = (s \<noteq> [] \<and> hd s = CHR ''-'');
          body = (if neg then tl s else s);
          ip = (if body \<noteq> [] \<and> hd body = CHR ''0'' then ''0'' else takeWhile is_digit body);
          r1 = drop (length ip) body;
          fp = (case r1 of
                  c # d # r \<Rightarrow>
                    if c = CHR ''.'' \<and> is_digit d then takeWhile is_digit (d # r) else []
                | _ \<Rightarrow> []);
          r2 = (if fp = [] then r1 else drop (Suc (length fp)) r1);
          ex = (case r2 of
                  [] \<Rightarrow> []
                | c # r \<Rightarrow>
                    if c = CHR ''e'' \<or> c = CHR ''E'' then
                      (let sg = (case r of
                                   [] \<Rightarrow> []
                                 | x # y \<Rightarrow> if x = CHR ''-'' \<or> x = CHR ''+'' then [x] else []);
                           ds = takeWhile is_digit (drop (length sg) r)
                       in if ds = [] then [] else c # sg @ ds)
                    else []);
          n = (if neg then 1 else 0) + length ip + (if fp = [] then 0 else Suc (length fp))
              + length ex
      in if ip = [] then None
         else if fp = [] \<and> ex = [] then Some (TInt neg ip, n)
         else (case float_literal (take n s) of
                 None \<Rightarrow> None
               | Some x \<Rightarrow> Some (TAtom (PFloat x), n)))"

function tokenize :: "string \<Rightarrow> tok list" where
  "tokenize [] = []"
| "tokenize (c # cs) =
     (if json_ws c then tokenize cs
      else if c = CHR ''\"'' then
        (case scanstring cs of
           None \<Rightarrow> [TBadString]
         | Some (str, rest) \<Rightarrow> TStr str # tokenize rest)
      else if c = CHR ''{'' then TLBrace # tokenize cs
      else if c = CHR ''}'' then TRBrace # tokenize cs
      else if c = CHR ''['' then TLBrack # tokenize cs
      else if c = CHR '']'' then TRBrack # tokenize cs
      else if c = CHR '','' then TComma # tokenize cs
      else if c = CHR '':'' then TColon # tokenize cs
      else if startswith (c # cs) ''null'' then TAtom PNone # tokenize (drop 3 cs)
      else if startswith (c # cs) ''true'' then TAtom (PBool True) # tokenize (drop 3 cs)
      else if startswith (c # cs) ''false'' then TAtom (PBool False) # tokenize (drop 4 cs)
      else if startswith (c # cs) ''NaN'' then TConst NaN # tokenize (drop 2 cs)
      else if startswith (c # cs) ''Infinity'' then TConst PosInf # tokenize (drop 7 cs)
      else if startswith (c # cs) ''-Infinity'' then TConst NegInf # tokenize (drop 8 cs)
      else (case match_number (c # cs) of
              None \<Rightarrow> [TBad]
            | Some (t, n) \<Rightarrow> t # tokenize (drop (n - 1) cs)))"
  by pat_completeness auto
termination
proof (relation "measure length")
  have shorter: "scanstring cs = Some (str, rest) \<Longrightarrow> length rest \<le> length cs"
    for cs str rest
  proof (induction cs arbitrary: str rest rule: scanstring.induct)
    case 1
    then show ?case by simp
  next
    case (2 c cs)
    then show ?case
      by (fastforce simp: prepend_def split: if_splits list.splits option.splits)
  qed
  fix c cs x2 x y
  assume "scanstring cs = Some x2" "(x, y) = x2"
  then have "length y \<le> length cs"
    using shorter [of cs x y] by simp
  then show "(y, c # cs) \<in> measure length" by simp
qed (auto simp: le_imp_less_Suc)

declare tokenize.simps [simp del]

subsection \<open>Reading the tokens\<close>

text \<open>\<^verbatim>\<open>d[k] = v\<close> on a dictionary kept in insertion order.\<close>

fun dict_set :: "(nat list \<times> pyval) list \<Rightarrow> nat list \<Rightarrow> pyval \<Rightarrow> (nat list \<times> pyval) list" where
  "dict_set [] k v = [(k, v)]"
| "dict_set ((k', v') # d) k v = (if k' = k then (k, v) # d else (k', v') # dict_set d k v)"

text \<open>
  An open container: an array with its elements so far (latest first), or an object with
  its members so far and the key whose value is being read.
\<close>

datatype frame = FArr "pyval list" | FObj "(nat list \<times> pyval) list" "nat list"

text \<open>
  \<open>parse_value first\<close> expects a value (or, right after an opening bracket, the closing
  one); \<open>parse_key first\<close> is inside an object that is not yet on the stack and expects
  a member key (or, right after the opening brace, the closing one) and the colon;
  \<open>after_value\<close> has a finished value and puts it in the innermost open container, or
  returns it when none is open and the text ends. The number of open containers is the
  length of the stack, and one more inside \<open>parse_key\<close>.
\<close>

fun parse_value :: "interpreter \<Rightarrow> bool \<Rightarrow> frame list \<Rightarrow> tok list \<Rightarrow> exn + pyval"
  and parse_key ::
    "interpreter \<Rightarrow> bool \<Rightarrow> (nat list \<times> pyval) list \<Rightarrow> frame list \<Rightarrow> tok list \<Rightarrow> exn + pyval"
  and after_value :: "interpreter \<Rightarrow> pyval \<Rightarrow> frame list \<Rightarrow> tok list \<Rightarrow> exn + pyval" where
  "parse_value py first st [] = syntax_error py ExpectingValue (length st)"
| "parse_value py first st (t # ts) =
     (case t of
        TAtom v \<Rightarrow> after_value py v st ts
      | TConst x \<Rightarrow>
          if room py Constant (length st) then after_value py (PFloat x) st ts
          else Inl RecursionError
      | TInt neg ds \<Rightarrow>
          (case int_literal py neg ds of
             Inl e \<Rightarrow> Inl e
           | Inr n \<Rightarrow> after_value py (PInt n) st ts)
      | TStr s \<Rightarrow> after_value py (PText s) st ts
      | TLBrack \<Rightarrow>
          if room py Enter (length st) then parse_value py True (FArr [] # st) ts
          else Inl RecursionError
      | TLBrace \<Rightarrow>
          if room py Enter (length st) then parse_key py True [] st ts
          else Inl RecursionError
      | TRBrack \<Rightarrow>
          (case st of
             FArr es # st' \<Rightarrow>
               if first then after_value py (PList (rev es)) st' ts
               else syntax_error py TrailingComma (length st)
           | _ \<Rightarrow> syntax_error py ExpectingValue (length st))
      | TBadString \<Rightarrow> syntax_error py BadString (length st)
      | _ \<Rightarrow> syntax_error py ExpectingValue (length st))"
| "parse_key py first ps st [] = syntax_error py PropertyName (Suc (length st))"
| "parse_key py first ps st (t # ts) =
     (case t of
        TStr k \<Rightarrow>
          (case ts of
             TColon # ts' \<Rightarrow> parse_value py False (FObj ps k # st) ts'
           | _ \<Rightarrow> syntax_error py Colon (Suc (length st)))
      | TRBrace \<Rightarrow>
          if first then after_value py (PDict ps) st ts
          else syntax_error py PropertyName (Suc (length st))
      | TBadString \<Rightarrow> syntax_error py BadString (Suc (length st))
      | _ \<Rightarrow> syntax_error py PropertyName (Suc (length st)))"
| "after_value py v [] ts = (if ts = [] then Inr v else syntax_error py ExtraData 0)"
| "after_value py v (f # st) ts =
     (case (f, ts) of
        (FArr es, TComma # ts') \<Rightarrow> parse_value py False (FArr (v # es) # st) ts'
      | (FArr es, TRBrack # ts') \<Rightarrow> after_value py (PList (rev (v # es))) st ts'
      | (FObj ps k, TComma # ts') \<Rightarrow> parse_key py False (dict_set ps k v) st ts'
      | (FObj ps k, TRBrace # ts') \<Rightarrow> after_value py (PDict (dict_set ps k v)) st ts'
      | _ \<Rightarrow> syntax_error py Delimiter (Suc (length st)))"

definition json_loads :: "interpreter \<Rightarrow> string \<Rightarrow> exn + pyval" where
  "json_loads py s = parse_value py False [] (tokenize s)"

section \<open>The result record and its two decoders\<close>

text \<open>\<^verbatim>\<open>d.get(k, default)\<close> on a dictionary given as a map.\<close>

definition dict_get :: "('k \<rightharpoonup> 'v) \<Rightarrow> 'k \<Rightarrow> 'v \<Rightarrow> 'v" where
  "dict_get d k dflt = (case d k of None \<Rightarrow> dflt | Some v \<Rightarrow> v)"

text \<open>The dataclass \<^verbatim>\<open>MapsResult\<close>. Python does not enforce the annotated field
  types, so every field holds a value.\<close>

record MapsResult =
  input_id :: pyval
  link :: pyval
  cid :: pyval
  title :: pyval
  category :: pyval
  address :: pyval
  open_hours :: pyval
  popular_times :: pyval
  web_site :: pyval
  phone :: pyval
  plus_code :: pyval
  review_count :: pyval
  review_rating :: pyval
  reviews_per_rating :: pyval
  latitude :: pyval
  longitude :: pyval
  status :: pyval
  description :: pyval
  reviews_link :: pyval
  thumbnail :: pyval
  timezone :: pyval
  price_range :: pyval
  data_id :: pyval
  place_id :: pyval
  images :: pyval
  reservations :: pyval
  order_online :: pyval
  menu :: pyval
  owner :: pyval
  complete_address :: pyval
  about :: pyval
  user_reviews :: pyval
  emails :: pyval

subsection \<open>\<^verbatim>\<open>MapsResult.from_dict\<close>\<close>

definition from_dict :: "(string \<rightharpoonup> pyval) \<Rightarrow> MapsResult" where
  "from_dict data =
     \<lparr>input_id = dict_get data ''input_id'' (PStr ''''),
       link = dict_get data ''link'' (PStr ''''),
       cid = dict_get data ''cid'' (PStr ''''),
       title = dict_get data ''title'' (PStr ''''),
       category = dict_get data ''category'' (PStr ''''),
       address = dict_get data ''address'' (PStr ''''),
       open_hours = dict_get data ''open_hours'' (PDict []),
       popular_times = dict_get data ''popular_times'' (PDict []),
       web_site = dict_get data ''web_site'' (PStr ''''),
       phone = dict_get data ''phone'' (PStr ''''),
       plus_code = dict_get data ''plus_code'' (PStr ''''),
       review_count = dict_get data ''review_count'' (PInt 0),
       review_rating = dict_get data ''review_rating'' (PFloat (Finite 0)),
       reviews_per_rating = dict_get data ''reviews_per_rating'' (PDict []),
       latitude = dict_get data ''latitude'' (PFloat (Finite 0)),
       longitude = (if ''longtitude'' \<in> dom data
                    then dict_get data ''longtitude'' (PFloat (Finite 0))
                    else dict_get data ''longitude'' (PFloat (Finite 0))),
       status = dict_get data ''status'' (PStr ''''),
       description = dict_get data ''description'' (PStr ''''),
       reviews_link = dict_get data ''reviews_link'' (PStr ''''),
       thumbnail = dict_get data ''thumbnail'' (PStr ''''),
       timezone = dict_get data ''timezone'' (PStr ''''),
       price_range = dict_get data ''price_range'' (PStr ''''),
       data_id = dict_get data ''data_id'' (PStr ''''),
       place_id = dict_get data ''place_id'' (PStr ''''),
       images = dict_get data ''images'' (PList []),
       reservations = dict_get data ''reservations'' (PList []),
       order_online = dict_get data ''order_online'' (PList []),
       menu = dict_get data ''menu'' (PDict []),
       owner = dict_get data ''owner'' (PDict []),
       complete_address = dict_get data ''complete_address'' (PDict []),
       about = dict_get data ''about'' (PList []),
       user_reviews = dict_get data ''user_reviews'' (PList []),
       emails = dict_get data ''emails'' (PList [])\<rparr>"

subsection \<open>\<^verbatim>\<open>MapsResult.from_csv_row\<close>\<close>

text \<open>A row of the tabular payload, \<^verbatim>\<open>Dict[str, str]\<close>: column name to cell text.\<close>

type_synonym row = "string \<rightharpoonup> string"

text \<open>The three local helpers. Each catches one exception class and lets any other
  through. \<open>py\<close> is the interpreter that runs the call.\<close>

definition parse_json :: "interpreter \<Rightarrow> row \<Rightarrow> string \<Rightarrow> pyval \<Rightarrow> exn + pyval" where
  "parse_json py row field_name dflt =
     (let val = dict_get row field_name ''''
      in if val = [] then Inr dflt
         else (case json_loads py val of
                 Inr v \<Rightarrow> Inr v
               | Inl e \<Rightarrow> if e = JSONDecodeError then Inr dflt else Inl e))"

definition parse_float :: "row \<Rightarrow> string \<Rightarrow> pyval \<Rightarrow> exn + pyval" where
  "parse_float row field_name dflt =
     (let val = dict_get row field_name ''''
      in if val = [] then Inr dflt
         else (case py_float val of
                 Inr x \<Rightarrow> Inr (PFloat x)
               | Inl e \<Rightarrow> if e = ValueError then Inr dflt else Inl e))"

definition parse_int :: "row \<Rightarrow> string \<Rightarrow> pyval \<Rightarrow> exn + pyval" where
  "parse_int row field_name dflt =
     (let val = dict_get row field_name ''''
      in if val = [] then Inr dflt
         else (case and_then (py_float val) py_int of
                 Inr n \<Rightarrow> Inr (PInt n)
               | Inl e \<Rightarrow> if e = ValueError then Inr dflt else Inl e))"

text \<open>The expression of the \<^verbatim>\<open>emails\<close> argument. \<^verbatim>\<open>row.get('emails')\<close> is
  \<^verbatim>\<open>None\<close> for a missing column, which is false like the empty text.\<close>

definition emails_cell :: "interpreter \<Rightarrow> row \<Rightarrow> exn + pyval" where
  "emails_cell py row =
     (case row ''emails'' of
        None \<Rightarrow> Inr (PList [])
      | Some e \<Rightarrow>
          if e \<noteq> [] \<and> startswith e ''['' then parse_json py row ''emails'' (PList [])
          else if e \<noteq> [] then
            Inr (PList (map (\<lambda>x. PStr (strip x)) (split CHR '','' (dict_get row ''emails'' ''''))))
          else Inr (PList []))"

text \<open>The keyword arguments are evaluated in the order written; the first one that raises
  ends the call.\<close>

definition from_csv_row :: "interpreter \<Rightarrow> row \<Rightarrow> exn + MapsResult" where
  "from_csv_row py row =
     and_then (parse_json py row ''open_hours'' (PDict [])) (\<lambda>open_hours_v.
     and_then (parse_json py row ''popular_times'' (PDict [])) (\<lambda>popular_times_v.
     and_then (parse_int row ''review_count'' (PInt 0)) (\<lambda>review_count_v.
     and_then (parse_float row ''review_rating'' (PFloat (Finite 0))) (\<lambda>review_rating_v.
     and_then (parse_json py row ''reviews_per_rating'' (PDict [])) (\<lambda>reviews_per_rating_v.
     and_then (parse_float row ''latitude'' (PFloat (Finite 0))) (\<lambda>latitude_v.
     and_then (parse_float row ''longitude'' (PFloat (Finite 0))) (\<lambda>longitude_v.
     and_then (parse_json py row ''images'' (PList [])) (\<lambda>images_v.
     and_then (parse_json py row ''reservations'' (PList [])) (\<lambda>reservations_v.
     and_then (parse_json py row ''order_online'' (PList [])) (\<lambda>order_online_v.
     and_then (parse_json py row ''menu'' (PDict [])) (\<lambda>menu_v.
     and_then (parse_json py row ''owner'' (PDict [])) (\<lambda>owner_v.
     and_then (parse_json py row ''complete_address'' (PDict [])) (\<lambda>complete_address_v.
     and_then (parse_json py row ''about'' (PList [])) (\<lambda>about_v.
     and_then (parse_json py row ''user_reviews'' (PList [])) (\<lambda>user_reviews_v.
     and_then (emails_cell py row) (\<lambda>emails_v.
     Inr \<lparr>input_id = PStr (dict_get row ''input_id'' ''''),
       link = PStr (dict_get row ''link'' ''''),
       cid = PStr (dict_get row ''cid'' ''''),
       title = PStr (dict_get row ''title'' ''''),
       category = PStr (dict_get row ''category'' ''''),
       address = PStr (dict_get row ''address'' ''''),
       open_hours = open_hours_v,
       popular_times = popular_times_v,
       web_site = PStr (dict_get row ''website'' ''''),
       phone = PStr (dict_get row ''phone'' ''''),
       plus_code = PStr (dict_get row ''plus_code'' ''''),
       review_count = review_count_v,
       review_rating = review_rating_v,
       reviews_per_rating = reviews_per_rating_v,
       latitude = latitude_v,
       longitude = longitude_v,
       status = PStr (dict_get row ''status'' ''''),
       description = PStr (dict_get row ''descriptions'' ''''),
       reviews_link = PStr (dict_get row ''reviews_link'' ''''),
       thumbnail = PStr (dict_get row ''thumbnail'' ''''),
       timezone = PStr (dict_get row ''timezone'' ''''),
       price_range = PStr (dict_get row ''price_range'' ''''),
       data_id = PStr (dict_get row ''data_id'' ''''),
       place_id = PStr (dict_get row ''place_id'' ''''),
       images = images_v,
       reservations = reservations_v,
       order_online = order_online_v,
       menu = menu_v,
       owner = owner_v,
       complete_address = complete_address_v,
       about = about_v,
       user_reviews = user_reviews_v,
       emails = emails_v\<rparr>))))))))))))))))"

section \<open>The job client\<close>

text \<open>
  \<^verbatim>\<open>MapsScraperClient\<close> talks to the service through \<^verbatim>\<open>aiohttp\<close>. What the
  service answers is an input of the model. A request either raises (no connection, a
  timeout of the call) or gives a response, of which the client reads the status code, the
  text (\<^verbatim>\<open>await response.text()\<close>) and the decoded body
  (\<^verbatim>\<open>await response.json()\<close>); the last two may raise as well. The URL and the
  payload of a request are not modelled. A clock reading (\<^verbatim>\<open>time.time()\<close>) is a
  finite float.
\<close>

record response =
  status_code :: int
  text_body :: "exn + string"
  json_body :: "exn + pyval"

type_synonym reply = "exn + response"

text \<open>\<^verbatim>\<open>v[key]\<close> and \<^verbatim>\<open>v.get(key)\<close> with a string key: only a dictionary has
  them.\<close>

fun subscript :: "pyval \<Rightarrow> string \<Rightarrow> exn + pyval" where
  "subscript (PDict d) k = (case map_of d (codes k) of None \<Rightarrow> Inl KeyError | Some v \<Rightarrow> Inr v)"
| "subscript v k = Inl TypeError"

fun py_get :: "pyval \<Rightarrow> string \<Rightarrow> exn + pyval" where
  "py_get (PDict d) k = Inr (case map_of d (codes k) of None \<Rightarrow> PNone | Some v \<Rightarrow> v)"
| "py_get v k = Inl AttributeError"

subsection \<open>\<^verbatim>\<open>submit_job\<close>\<close>

definition submit_job :: "reply \<Rightarrow> exn + pyval" where
  "submit_job post =
     and_then post (\<lambda>response.
       if status_code response \<noteq> 201 then
         and_then (text_body response) (\<lambda>text.
           Inl (RuntimeError [Lit ''Failed to submit job: '', Val (PInt (status_code response)),
                              Lit '' '', Val (PStr text)]))
       else and_then (json_body response) (\<lambda>data. subscript data ''id''))"

subsection \<open>\<^verbatim>\<open>wait_for_job\<close>\<close>

text \<open>Float subtraction, and the comparison of a float with an integer, which Python
  makes exactly.\<close>

definition float_sub :: "rat \<Rightarrow> rat \<Rightarrow> pyfloat" where
  "float_sub a b = round64 (a < b) \<bar>a - b\<bar>"

fun float_gt_int :: "pyfloat \<Rightarrow> int \<Rightarrow> bool" where
  "float_gt_int (Finite q) n = (of_int n < q)"
| "float_gt_int NegZero n = (n < 0)"
| "float_gt_int PosInf n = True"
| "float_gt_int NegInf n = False"
| "float_gt_int NaN n = False"

text \<open>The test at the head of the loop:
  \<^verbatim>\<open>time.time() - start_time > self.timeout_s\<close>.\<close>

definition deadline_passed :: "int \<Rightarrow> rat \<Rightarrow> rat \<Rightarrow> bool" where
  "deadline_passed timeout_s start_time now = float_gt_int (float_sub now start_time) timeout_s"

text \<open>One pass through the body of \<^verbatim>\<open>while True\<close>: the call returns or raises, or the
  pass ends in \<^verbatim>\<open>await asyncio.sleep(poll_s)\<close>.\<close>

datatype step = Done "exn + pyval" | Sleep int

definition poll_once :: "int \<Rightarrow> pyval \<Rightarrow> int \<Rightarrow> rat \<Rightarrow> rat \<Rightarrow> reply \<Rightarrow> step" where
  "poll_once timeout_s job_id poll_s start_time now get =
     (if deadline_passed timeout_s start_time now then
        Done (Inl (TimeoutError [Lit ''Job '', Val job_id, Lit '' timed out'']))
      else
        (case get of
           Inl e \<Rightarrow> Done (Inl e)
         | Inr response \<Rightarrow>
             if status_code response = 404 then Sleep poll_s
             else if status_code response \<noteq> 200 then Sleep poll_s
             else
               (case json_body response of
                  Inl e \<Rightarrow> Done (Inl e)
                | Inr data \<Rightarrow>
                    (case py_get data ''status'' of
                       Inl e \<Rightarrow> Done (Inl e)
                     | Inr st \<Rightarrow>
                         if st = PStr ''finished'' \<or> st = PStr ''ok'' then Done (Inr data)
                         else if st = PStr ''failed'' \<or> st = PStr ''error'' then
                           (case py_get data ''error'' of
                              Inl e \<Rightarrow> Done (Inl e)
                            | Inr err \<Rightarrow>
                                Done (Inl (RuntimeError
                                  [Lit ''Job '', Val job_id, Lit '' failed: '', Val err])))
                         else Sleep poll_s))))"

text \<open>
  The loop runs against a script of the world: for each pass, the clock reading of its
  deadline test and the reply its request would get. The result is the sleeps made, in
  order, and how the call ended; \<open>None\<close> when the script ends with the loop still
  running.
\<close>

definition after_sleep ::
  "int \<Rightarrow> (int list \<times> (exn + pyval)) option \<Rightarrow> (int list \<times> (exn + pyval)) option" where
  "after_sleep d rest = (case rest of None \<Rightarrow> None | Some (sleeps, r) \<Rightarrow> Some (d # sleeps, r))"

fun wait_loop ::
  "int \<Rightarrow> pyval \<Rightarrow> int \<Rightarrow> rat \<Rightarrow> (rat \<times> reply) list \<Rightarrow> (int list \<times> (exn + pyval)) option" where
  "wait_loop timeout_s job_id poll_s start_time [] = None"
| "wait_loop timeout_s job_id poll_s start_time ((now, get) # script) =
     (case poll_once timeout_s job_id poll_s start_time now get of
        Done r \<Rightarrow> Some ([], r)
      | Sleep d \<Rightarrow> after_sleep d (wait_loop timeout_s job_id poll_s start_time script))"

text \<open>\<open>start_time\<close> is the clock reading taken before the loop.\<close>

definition wait_for_job ::
  "int \<Rightarrow> pyval \<Rightarrow> int \<Rightarrow> rat \<Rightarrow> (rat \<times> reply) list \<Rightarrow> (int list \<times> (exn + pyval)) option" where
  "wait_for_job timeout_s job_id poll_s start_time script =
     wait_loop timeout_s job_id poll_s start_time script"

subsection \<open>\<^verbatim>\<open>download_csv\<close>\<close>

text \<open>\<^verbatim>\<open>raise_for_status\<close> raises for a status code from 400.\<close>

definition download_csv :: "reply \<Rightarrow> exn + string" where
  "download_csv get =
     and_then get (\<lambda>response.
       if 400 \<le> status_code response then Inl (LibraryError ''ClientResponseError'')
       else text_body response)"

subsection \<open>\<^verbatim>\<open>fetch_places\<close>\<close>

text \<open>
  \<^verbatim>\<open>csv.DictReader\<close> is the standard library's and is a parameter: for a payload it
  gives the rows it yields, in order, and the exception that ends the iteration, if any.
  A row has text cells only, as the annotation of \<^verbatim>\<open>from_csv_row\<close> says; the
  \<^verbatim>\<open>None\<close> that the reader puts in the missing cells of a short line is outside
  the model. The loop appends one decoded row after the other to \<open>results\<close>.
\<close>

fun decode_rows ::
  "interpreter \<Rightarrow> row list \<Rightarrow> exn option \<Rightarrow> MapsResult list \<Rightarrow> exn + MapsResult list" where
  "decode_rows py [] None results = Inr results"
| "decode_rows py [] (Some e) results = Inl e"
| "decode_rows py (r # rows) stop results =
     and_then (from_csv_row py r) (\<lambda>m. decode_rows py rows stop (results @ [m]))"

text \<open>What the service answers during one call of \<^verbatim>\<open>fetch_places\<close>.\<close>

record world =
  submit_reply :: reply
  start_clock :: rat
  poll_script :: "(rat \<times> reply) list"
  download_reply :: reply

definition fetch_places ::
  "interpreter \<Rightarrow> int \<Rightarrow> (string \<Rightarrow> row list \<times> exn option) \<Rightarrow> world \<Rightarrow>
     (exn + MapsResult list) option" where
  "fetch_places py timeout_s dict_reader w =
     (case submit_job (submit_reply w) of
        Inl e \<Rightarrow> Some (Inl e)
      | Inr job_id \<Rightarrow>
          (case wait_for_job timeout_s job_id 5 (start_clock w) (poll_script w) of
             None \<Rightarrow> None
           | Some (sleeps, Inl e) \<Rightarrow> Some (Inl e)
           | Some (sleeps, Inr job_details) \<Rightarrow>
               (case download_csv (download_reply w) of
                  Inl e \<Rightarrow> Some (Inl e)
                | Inr csv_content \<Rightarrow>
                    (case dict_reader csv_content of
                       (rows, stop) \<Rightarrow> Some (decode_rows py rows stop [])))))"

section \<open>Notions used in the statements\<close>

text \<open>
  The policy for the \<^verbatim>\<open>emails\<close> cell in the words of the specification: an empty cell
  gives the empty sequence; a cell that begins with the list marker is decoded as a nested
  document, with the empty sequence for a text that is not one, as for the other
  structured cells; any other cell is split on commas and each piece is stripped. Decoding
  a nested document is \<^verbatim>\<open>json.loads\<close>, with what it raises on the interpreter's
  limits.
\<close>

definition emails_policy :: "interpreter \<Rightarrow> string \<Rightarrow> exn + pyval" where
  "emails_policy py cell =
     (if cell = [] then Inr (PList [])
      else if hd cell = CHR ''['' then
        (case json_loads py cell of
           Inr v \<Rightarrow> Inr v
         | Inl e \<Rightarrow> if e = JSONDecodeError then Inr (PList []) else Inl e)
      else Inr (PList (map (\<lambda>piece. PStr (strip piece)) (split CHR '','' cell))))"

text \<open>
  The status field the client reads in a reply: the reply is a response with status code
  200 whose body decodes to an object; a missing field reads as \<^verbatim>\<open>None\<close>.
\<close>

definition status_field :: "reply \<Rightarrow> pyval option" where
  "status_field get =
     (case get of
        Inl e \<Rightarrow> None
      | Inr response \<Rightarrow>
          if status_code response \<noteq> 200 then None
          else (case json_body response of
                  Inr (PDict d) \<Rightarrow> Some (case map_of d (codes ''status'') of None \<Rightarrow> PNone | Some v \<Rightarrow> v)
                | _ \<Rightarrow> None))"

text \<open>
  A reply that is not terminal: a response with another status code than 200, or one whose
  status field is none of the four terminal words.
\<close>

definition non_terminal :: "reply \<Rightarrow> bool" where
  "non_terminal get =
     (case get of
        Inl e \<Rightarrow> False
      | Inr response \<Rightarrow>
          (case status_field get of
             None \<Rightarrow> status_code response \<noteq> 200
           | Some st \<Rightarrow> st \<notin> {PStr ''finished'', PStr ''ok'', PStr ''failed'', PStr ''error''}))"

text \<open>A stretch of the script in which no deadline test fires and every reply is
  non-terminal.\<close>

definition quiet :: "int \<Rightarrow> rat \<Rightarrow> (rat \<times> reply) list \<Rightarrow> bool" where
  "quiet timeout_s start_time script =
     list_all (\<lambda>(now, get). \<not> deadline_passed timeout_s start_time now \<and> non_terminal get) script"


text \<open>Whether a value is a \<^verbatim>\<open>dict\<close>.\<close>

definition is_dict :: "pyval \<Rightarrow> bool" where
  "is_dict v = (case v of PDict d \<Rightarrow> True | _ \<Rightarrow> False)"

section \<open>Properties of the decoders\<close>

subsection \<open>What the helpers can raise\<close>

lemma codes_inject [simp]: "codes a = codes b \<longleftrightarrow> a = b"
proof -
  have "inj (of_char :: char \<Rightarrow> nat)"
    by (rule injI) simp
  then show ?thesis
    by (simp add: codes_def inj_map_eq_map)
qed

text \<open>\<^verbatim>\<open>json.loads\<close> raises one of three exceptions, of which
  \<^verbatim>\<open>parse_json\<close> catches the first.\<close>

lemma syntax_error_cases:
  "syntax_error py s d = Inl e \<Longrightarrow> e = JSONDecodeError \<or> e = RecursionError"
  by (simp add: syntax_error_def split: if_splits)

lemma int_literal_error: "int_literal py neg ds = Inl e \<Longrightarrow> e = ValueError"
  by (simp add: int_literal_def split: if_splits)

lemma parse_errors:
  "parse_value py first st ts = Inl e \<Longrightarrow> e \<in> {JSONDecodeError, RecursionError, ValueError}"
  "parse_key py first ps st ts = Inl e \<Longrightarrow> e \<in> {JSONDecodeError, RecursionError, ValueError}"
  "after_value py v st ts = Inl e \<Longrightarrow> e \<in> {JSONDecodeError, RecursionError, ValueError}"
proof (induction py first st ts and py first ps st ts and py v st ts
    rule: parse_value_parse_key_after_value.induct)
  case (1 py first st)
  then show ?case by (auto dest: syntax_error_cases)
next
  case (2 py first st t ts)
  then show ?case
    by (cases t)
       (auto dest: syntax_error_cases int_literal_error
             split: list.splits frame.splits sum.splits if_splits)
next
  case (3 py first ps st)
  then show ?case by (auto dest: syntax_error_cases)
next
  case (4 py first ps st t ts)
  then show ?case
    by (cases t) (auto dest: syntax_error_cases split: list.splits tok.splits if_splits)
next
  case (5 py v ts)
  then show ?case by (auto dest: syntax_error_cases split: if_splits)
next
  case (6 py v f st ts)
  then show ?case
    by (cases f) (auto dest: syntax_error_cases split: list.splits tok.splits)
qed

lemma json_loads_error:
  "json_loads py s = Inl e \<Longrightarrow> e = JSONDecodeError \<or> e = RecursionError \<or> e = ValueError"
  using parse_errors(1) [of py False "[]" "tokenize s" e] by (simp add: json_loads_def)

lemma py_float_error: "py_float s = Inl e \<Longrightarrow> e = ValueError"
  by (auto simp: py_float_def split: option.splits)

lemma parse_float_total: "parse_float row f d \<noteq> Inl e"
  using py_float_error by (auto simp: parse_float_def Let_def split: sum.splits)

lemma parse_json_error:
  "parse_json py row f d = Inl e \<longleftrightarrow>
     e \<noteq> JSONDecodeError \<and> (\<exists>val. row f = Some val \<and> val \<noteq> [] \<and> json_loads py val = Inl e)"
  by (cases "row f") (auto simp: parse_json_def dict_get_def Let_def split: sum.splits)

lemma parse_json_missing: "row f = None \<Longrightarrow> parse_json py row f d = Inr d"
  by (simp add: parse_json_def dict_get_def)

text \<open>\<^verbatim>\<open>parse_int\<close> raises \<^verbatim>\<open>OverflowError\<close>, for a cell that denotes an
  infinity, and nothing else.\<close>

lemma parse_int_Inl:
  "parse_int row f d = Inl e \<longleftrightarrow>
     e = OverflowError \<and>
     (\<exists>val. row f = Some val \<and> val \<noteq> [] \<and> (py_float val = Inr PosInf \<or> py_float val = Inr NegInf))"
proof -
  have py_int_Inl: "py_int x = Inl e' \<longleftrightarrow> (e' = OverflowError \<and> (x = PosInf \<or> x = NegInf)) \<or> (e' = ValueError \<and> x = NaN)"
    for x e'
    by (cases x) auto
  show ?thesis
    using py_float_error [of _ e]
    by (cases "row f")
       (auto simp: parse_int_def dict_get_def and_then_def Let_def py_int_Inl
             split: sum.splits if_splits)
qed

lemma emails_cell_error:
  "emails_cell py row = Inl e \<Longrightarrow> e = RecursionError \<or> e = ValueError"
  using json_loads_error [of py _ e]
  by (auto simp: emails_cell_def parse_json_error split: option.splits if_splits)

lemma from_csv_row_fields:
  assumes "from_csv_row py row = Inr r"
  shows "web_site r = PStr (dict_get row ''website'' '''')"
    and "description r = PStr (dict_get row ''descriptions'' '''')"
    and "emails_cell py row = Inr (emails r)"
    and "parse_int row ''review_count'' (PInt 0) = Inr (review_count r)"
    and "parse_float row ''review_rating'' (PFloat (Finite 0)) = Inr (review_rating r)"
    and "parse_float row ''latitude'' (PFloat (Finite 0)) = Inr (latitude r)"
    and "parse_float row ''longitude'' (PFloat (Finite 0)) = Inr (longitude r)"
  using assms
  by (auto simp: from_csv_row_def and_then_def split: sum.splits)

text \<open>\<^verbatim>\<open>from_csv_row\<close> raises nothing but \<^verbatim>\<open>OverflowError\<close>, from
  \<^verbatim>\<open>parse_int\<close>, and the two exceptions of \<^verbatim>\<open>json.loads\<close> that
  \<^verbatim>\<open>parse_json\<close> does not catch.\<close>

lemma from_csv_row_error:
  assumes "from_csv_row py row = Inl e"
  shows "e = OverflowError \<or> e = RecursionError \<or> e = ValueError"
proof -
  have j: "parse_json py row f d = Inl e \<Longrightarrow> e = RecursionError \<or> e = ValueError" for f d
    using json_loads_error [of py _ e] by (auto simp: parse_json_error)
  have i: "parse_int row f d = Inl e \<Longrightarrow> e = OverflowError" for f d
    by (simp add: parse_int_Inl)
  from assms show ?thesis
    using parse_float_total
    by (auto simp: from_csv_row_def and_then_def split: sum.splits
             dest: j i emails_cell_error)
qed

text \<open>It returns when each of the arguments that can raise returns; for a row without
  structured cells these are the \<^verbatim>\<open>review_count\<close> and the \<^verbatim>\<open>emails\<close>
  arguments.\<close>

lemma from_csv_row_returns:
  assumes "parse_json py row ''open_hours'' (PDict []) = Inr v1"
    and "parse_json py row ''popular_times'' (PDict []) = Inr v2"
    and "parse_int row ''review_count'' (PInt 0) = Inr v3"
    and "parse_json py row ''reviews_per_rating'' (PDict []) = Inr v4"
    and "parse_json py row ''images'' (PList []) = Inr v5"
    and "parse_json py row ''reservations'' (PList []) = Inr v6"
    and "parse_json py row ''order_online'' (PList []) = Inr v7"
    and "parse_json py row ''menu'' (PDict []) = Inr v8"
    and "parse_json py row ''owner'' (PDict []) = Inr v9"
    and "parse_json py row ''complete_address'' (PDict []) = Inr v10"
    and "parse_json py row ''about'' (PList []) = Inr v11"
    and "parse_json py row ''user_reviews'' (PList []) = Inr v12"
    and "emails_cell py row = Inr v13"
  shows "\<exists>r. from_csv_row py row = Inr r"
proof -
  obtain a where a: "parse_float row ''review_rating'' (PFloat (Finite 0)) = Inr a"
    using parse_float_total by (cases "parse_float row ''review_rating'' (PFloat (Finite 0))") auto
  obtain b where b: "parse_float row ''latitude'' (PFloat (Finite 0)) = Inr b"
    using parse_float_total by (cases "parse_float row ''latitude'' (PFloat (Finite 0))") auto
  obtain c where c: "parse_float row ''longitude'' (PFloat (Finite 0)) = Inr c"
    using parse_float_total by (cases "parse_float row ''longitude'' (PFloat (Finite 0))") auto
  show ?thesis
    by (simp add: from_csv_row_def and_then_def assms a b c)
qed

lemma from_csv_row_returns_plain:
  assumes "\<forall>f\<in>{''open_hours'', ''popular_times'', ''reviews_per_rating'', ''images'',
              ''reservations'', ''order_online'', ''menu'', ''owner'', ''complete_address'',
              ''about'', ''user_reviews''}. row f = None"
    and "parse_int row ''review_count'' (PInt 0) = Inr n"
    and "emails_cell py row = Inr em"
  shows "\<exists>r. from_csv_row py row = Inr r"
  using assms(1)
  by (intro from_csv_row_returns [OF _ _ assms(2) _ _ _ _ _ _ _ _ _ assms(3)])
     (simp_all add: parse_json_missing)

text \<open>Whether it raises, and what, depends on the cells of sixteen columns only.\<close>

lemma from_csv_row_raises_cong:
  assumes "\<forall>f\<in>{''open_hours'', ''popular_times'', ''review_count'', ''review_rating'',
              ''reviews_per_rating'', ''latitude'', ''longitude'', ''images'',
              ''reservations'', ''order_online'', ''menu'', ''owner'', ''complete_address'',
              ''about'', ''user_reviews'', ''emails''}. row' f = row f"
  shows "from_csv_row py row' = Inl e \<longleftrightarrow> from_csv_row py row = Inl e"
proof -
  have j: "parse_json py row' f d = parse_json py row f d" if "row' f = row f" for f d
    using that by (simp add: parse_json_def dict_get_def)
  have x: "parse_float row' f d = parse_float row f d" if "row' f = row f" for f d
    using that by (simp add: parse_float_def dict_get_def)
  have i: "parse_int row' f d = parse_int row f d" if "row' f = row f" for f d
    using that by (simp add: parse_int_def dict_get_def)
  have m: "emails_cell py row' = emails_cell py row"
  proof -
    from assms have "row' ''emails'' = row ''emails''" by simp
    then show ?thesis
      by (auto simp: emails_cell_def dict_get_def j split: option.splits)
  qed
  from assms show ?thesis
    unfolding from_csv_row_def
    by (simp add: j x i m and_then_def split: sum.splits)
qed

subsection \<open>The misspelt longitude key\<close>

text \<open>
  C9. \<^verbatim>\<open>from_dict\<close> takes the longitude from the key \<^verbatim>\<open>longtitude\<close> whenever the
  document has that key, whatever it has under \<^verbatim>\<open>longitude\<close>; it reads
  \<^verbatim>\<open>longitude\<close> only when \<^verbatim>\<open>longtitude\<close> is absent, and the default is 0.0.
\<close>

theorem from_dict_longitude:
  "longitude (from_dict data) =
     (case data ''longtitude'' of
        Some v \<Rightarrow> v
      | None \<Rightarrow> (case data ''longitude'' of Some v \<Rightarrow> v | None \<Rightarrow> PFloat (Finite 0)))"
  by (auto simp: from_dict_def dict_get_def dom_def split: option.splits)

theorem from_dict_longitude_witness:
  "longitude (from_dict [''longitude'' \<mapsto> PFloat (Finite 1), ''longtitude'' \<mapsto> PFloat (Finite 2)])
     = PFloat (Finite 2)"
  using from_dict_longitude
    [of "[''longitude'' \<mapsto> PFloat (Finite 1), ''longtitude'' \<mapsto> PFloat (Finite 2)]"]
  by simp

subsection \<open>Cells that raise\<close>

text \<open>
  C2. Decoding a row is meant never to raise. The helper \<^verbatim>\<open>parse_int\<close> catches
  \<^verbatim>\<open>ValueError\<close> only, and \<^verbatim>\<open>int(float(val))\<close> raises \<^verbatim>\<open>OverflowError\<close> when
  the text denotes an infinity: the row whose \<^verbatim>\<open>review_count\<close> cell is \<^verbatim>\<open>inf\<close> is
  not decoded, on any interpreter.
\<close>

theorem from_csv_row_raises_on_inf:
  "from_csv_row py [''review_count'' \<mapsto> ''inf''] = Inl OverflowError"
proof -
  have "parse_int [''review_count'' \<mapsto> ''inf''] ''review_count'' (PInt 0) = Inl OverflowError"
    by code_simp
  then show ?thesis
    by (simp add: from_csv_row_def parse_json_missing and_then_def)
qed

text \<open>
  C7. Each numeric field is meant to take its zero default, without raising, when its cell
  cannot be parsed. For \<^verbatim>\<open>review_count\<close> the cell \<^verbatim>\<open>Infinity\<close> is accepted by
  \<^verbatim>\<open>float\<close> and refused by \<^verbatim>\<open>int\<close> with \<^verbatim>\<open>OverflowError\<close>, which the helper
  does not catch.
\<close>

theorem review_count_infinity_raises:
  "parse_int [''review_count'' \<mapsto> ''Infinity''] ''review_count'' (PInt 0) = Inl OverflowError
   \<and> from_csv_row py [''review_count'' \<mapsto> ''Infinity''] = Inl OverflowError"
proof -
  have "parse_int [''review_count'' \<mapsto> ''Infinity''] ''review_count'' (PInt 0) = Inl OverflowError"
    by code_simp
  then show ?thesis
    by (simp add: from_csv_row_def parse_json_missing and_then_def)
qed

text \<open>The examples of the specification hold, and so do the defaults for an empty and a
  missing cell.\<close>

lemma review_count_examples:
  "parse_int [''review_count'' \<mapsto> ''12.0''] ''review_count'' (PInt 0) = Inr (PInt 12)"
  "parse_int [''review_count'' \<mapsto> ''abc''] ''review_count'' (PInt 0) = Inr (PInt 0)"
  "parse_int [''review_count'' \<mapsto> ''''] ''review_count'' (PInt 0) = Inr (PInt 0)"
  "parse_int Map.empty ''review_count'' (PInt 0) = Inr (PInt 0)"
  by code_simp+

subsection \<open>The emails field\<close>

lemma startswith_bracket: "cell \<noteq> [] \<Longrightarrow> startswith cell ''['' \<longleftrightarrow> hd cell = CHR ''[''"
  by (cases cell) (auto simp: startswith_def)

lemma emails_cell_policy: "emails_cell py row = emails_policy py (dict_get row ''emails'' '''')"
  by (cases "row ''emails''")
     (auto simp: emails_cell_def emails_policy_def dict_get_def parse_json_def startswith_bracket
           split: sum.splits)

lemma split_no_separator: "sep \<notin> set s \<Longrightarrow> split sep s = [s]"
  by (induction s) auto

lemma strip_whitespace_only:
  assumes "\<forall>c\<in>set s. py_isspace c"
  shows "strip s = []"
proof -
  from assms have "dropWhile py_isspace s = []"
    by (induction s) auto
  then show ?thesis by (simp add: strip_def del: dropWhile_eq_Nil_conv)
qed

lemma tokenize_example:
  "tokenize ''[\"a@x.com\"]'' = [TLBrack, TStr (codes ''a@x.com''), TRBrack]"
  by code_simp

text \<open>
  C6. The \<^verbatim>\<open>emails\<close> argument of \<^verbatim>\<open>from_csv_row\<close> is the three-way policy
  applied to the cell, and so is the \<^verbatim>\<open>emails\<close> field of every decoded record:
  empty cell, empty sequence; a cell beginning with \<^verbatim>\<open>[\<close>, decoded as a nested
  document; otherwise split on commas with each piece stripped. The cell
  \<^verbatim>\<open>a@x.com, b@y.com\<close> gives the two addresses, and the cell \<^verbatim>\<open>["a@x.com"]\<close>
  gives the one on an interpreter with room for one container.
\<close>

theorem emails_three_way:
  "emails_cell py row = emails_policy py (dict_get row ''emails'' '''')
   \<and> (from_csv_row py row = Inr r \<longrightarrow>
        emails_policy py (dict_get row ''emails'' '''') = Inr (emails r))
   \<and> emails_policy py '''' = Inr (PList [])
   \<and> emails_policy py ''a@x.com, b@y.com'' = Inr (PList [PStr ''a@x.com'', PStr ''b@y.com''])
   \<and> (room py Enter 0 \<longrightarrow>
        emails_policy py ''[\"a@x.com\"]'' = Inr (PList [PStr ''a@x.com'']))"
proof -
  have "from_csv_row py row = Inr r \<longrightarrow>
      emails_policy py (dict_get row ''emails'' '''') = Inr (emails r)"
    using from_csv_row_fields(3) [of py row r] emails_cell_policy [of py row] by simp
  moreover have "emails_policy py '''' = Inr (PList [])"
    by (simp add: emails_policy_def)
  moreover have "emails_policy py ''a@x.com, b@y.com''
      = Inr (PList [PStr ''a@x.com'', PStr ''b@y.com''])"
  proof -
    have "map strip (split CHR '','' ''a@x.com, b@y.com'') = [''a@x.com'', ''b@y.com'']"
      by code_simp
    then have "map (\<lambda>piece. PStr (strip piece)) (split CHR '','' ''a@x.com, b@y.com'')
        = [PStr ''a@x.com'', PStr ''b@y.com'']"
      unfolding map_map [symmetric, of PStr strip, unfolded comp_def] by simp
    then show ?thesis
      by (simp add: emails_policy_def)
  qed
  moreover have "emails_policy py ''[\"a@x.com\"]'' = Inr (PList [PStr ''a@x.com''])"
    if "room py Enter 0"
    using that by (simp add: emails_policy_def json_loads_def tokenize_example)
  ultimately show ?thesis
    using emails_cell_policy [of py row] by blast
qed

theorem emails_three_way_witness:
  "\<exists>r. from_csv_row \<lparr>int_max_str_digits = 4300, room = (\<lambda>n d. d < 900)\<rparr>
          [''title'' \<mapsto> ''Cafe'', ''emails'' \<mapsto> ''[\"a@x.com\"]''] = Inr r
       \<and> emails r = PList [PStr ''a@x.com'']"
proof -
  let ?py = "\<lparr>int_max_str_digits = 4300, room = (\<lambda>n d. d < 900)\<rparr>"
  let ?row = "[''title'' \<mapsto> ''Cafe'', ''emails'' \<mapsto> ''[\"a@x.com\"]'']"
  have c: "dict_get ?row ''emails'' '''' = ''[\"a@x.com\"]''"
    by (simp add: dict_get_def)
  have e: "room ?py Enter 0" by simp
  note t = emails_three_way [of ?py ?row, unfolded c]
  from t e have "emails_cell ?py ?row = Inr (PList [PStr ''a@x.com''])"
    by simp
  moreover have "parse_int ?row ''review_count'' (PInt 0) = Inr (PInt 0)"
    by (simp add: parse_int_def dict_get_def)
  ultimately obtain r where r: "from_csv_row ?py ?row = Inr r"
    using from_csv_row_returns_plain [of ?row _ ?py] by auto
  from t [of r] e have p: "emails_policy ?py ''[\"a@x.com\"]'' = Inr (PList [PStr ''a@x.com''])"
    by blast
  from t [of r] r have q: "emails_policy ?py ''[\"a@x.com\"]'' = Inr (emails r)"
    by blast
  from p q have "emails r = PList [PStr ''a@x.com'']" by simp
  with r show ?thesis by blast
qed

text \<open>
  C10. A non-empty \<^verbatim>\<open>emails\<close> cell without a comma that does not begin with
  \<^verbatim>\<open>[\<close> gives a sequence of one element, the stripped cell; so a cell of white space
  only gives one empty string, not the empty sequence.
\<close>

theorem emails_without_comma:
  assumes "from_csv_row py row = Inr r"
    and "row ''emails'' = Some cell"
    and "cell \<noteq> []"
    and "CHR '','' \<notin> set cell"
    and "hd cell \<noteq> CHR ''[''"
  shows "emails r = PList [PStr (strip cell)]
       \<and> ((\<forall>c\<in>set cell. py_isspace c) \<longrightarrow> emails r = PList [PStr ''''])"
proof -
  have "emails_cell py row = emails_policy py cell"
    using emails_cell_policy [of py row] assms(2) by (simp add: dict_get_def)
  then have "Inr (emails r) = emails_policy py cell"
    using from_csv_row_fields(3) [OF assms(1)] by simp
  then have "emails r = PList [PStr (strip cell)]"
    using assms(3-5) by (simp add: emails_policy_def split_no_separator)
  then show ?thesis
    using strip_whitespace_only [of cell] by simp
qed

theorem emails_without_comma_witness:
  "\<exists>r. from_csv_row \<lparr>int_max_str_digits = 4300, room = (\<lambda>n d. d < 900)\<rparr>
          [''emails'' \<mapsto> ''  ''] = Inr r \<and> emails r = PList [PStr '''']"
proof -
  let ?py = "\<lparr>int_max_str_digits = 4300, room = (\<lambda>n d. d < 900)\<rparr>"
  let ?row = "[''emails'' \<mapsto> ''  '']"
  have "parse_int ?row ''review_count'' (PInt 0) = Inr (PInt 0)"
    by (simp add: parse_int_def dict_get_def)
  moreover have "\<exists>em. emails_cell ?py ?row = Inr em"
    by (simp add: emails_cell_def startswith_def)
  ultimately obtain r where r: "from_csv_row ?py ?row = Inr r"
    using from_csv_row_returns_plain [of ?row _ ?py] by auto
  have sp: "\<forall>c\<in>set ''  ''. py_isspace c"
    by (simp add: py_isspace_def)
  have "emails r = PList [PStr (strip ''  '')]
      \<and> ((\<forall>c\<in>set ''  ''. py_isspace c) \<longrightarrow> emails r = PList [PStr ''''])"
    by (rule emails_without_comma [OF r]) simp_all
  with sp have "emails r = PList [PStr '''']" by blast
  with r show ?thesis by blast
qed

subsection \<open>Scalar fields and their column names\<close>

text \<open>
  C8. The field \<^verbatim>\<open>web_site\<close> is read from the column \<^verbatim>\<open>website\<close> and the field
  \<^verbatim>\<open>description\<close> from the column \<^verbatim>\<open>descriptions\<close>; a missing column gives the
  empty string, so a row without a \<^verbatim>\<open>website\<close> column decodes with an empty
  \<^verbatim>\<open>web_site\<close>. Neither cell, present, empty or missing, decides whether the
  decoding raises.
\<close>

theorem scalar_name_mapping:
  "(from_csv_row py row = Inr r \<longrightarrow>
      web_site r = PStr (case row ''website'' of None \<Rightarrow> '''' | Some cell \<Rightarrow> cell)
    \<and> description r = PStr (case row ''descriptions'' of None \<Rightarrow> '''' | Some cell \<Rightarrow> cell)
    \<and> (row ''website'' = None \<longrightarrow> web_site r = PStr ''''))
   \<and> (from_csv_row py (row(''website'' := w, ''descriptions'' := d)) = Inl e \<longleftrightarrow>
        from_csv_row py row = Inl e)"
proof -
  have "web_site r = PStr (case row ''website'' of None \<Rightarrow> '''' | Some cell \<Rightarrow> cell)
    \<and> description r = PStr (case row ''descriptions'' of None \<Rightarrow> '''' | Some cell \<Rightarrow> cell)
    \<and> (row ''website'' = None \<longrightarrow> web_site r = PStr '''')"
    if "from_csv_row py row = Inr r"
    using from_csv_row_fields(1,2) [OF that]
    by (auto simp: dict_get_def split: option.splits)
  moreover have "from_csv_row py (row(''website'' := w, ''descriptions'' := d)) = Inl e \<longleftrightarrow>
      from_csv_row py row = Inl e"
    by (rule from_csv_row_raises_cong) simp
  ultimately show ?thesis by blast
qed

theorem scalar_name_mapping_witness:
  "\<exists>r. from_csv_row \<lparr>int_max_str_digits = 4300, room = (\<lambda>n d. d < 900)\<rparr>
          [''web_site'' \<mapsto> ''ignored'', ''descriptions'' \<mapsto> ''A bar''] = Inr r
       \<and> web_site r = PStr '''' \<and> description r = PStr ''A bar''"
proof -
  let ?py = "\<lparr>int_max_str_digits = 4300, room = (\<lambda>n d. d < 900)\<rparr>"
  let ?row = "[''web_site'' \<mapsto> ''ignored'', ''descriptions'' \<mapsto> ''A bar'']"
  have "parse_int ?row ''review_count'' (PInt 0) = Inr (PInt 0)"
    by (simp add: parse_int_def dict_get_def)
  moreover have "\<exists>em. emails_cell ?py ?row = Inr em"
    by (simp add: emails_cell_def)
  ultimately obtain r where r: "from_csv_row ?py ?row = Inr r"
    using from_csv_row_returns_plain [of ?row _ ?py] by auto
  with scalar_name_mapping [of ?py ?row r]
  have "web_site r = PStr '''' \<and> description r = PStr ''A bar''"
    by simp
  with r show ?thesis by blast
qed

section \<open>Properties of the client\<close>

subsection \<open>One pass of the polling loop\<close>

lemma py_get_not_dict: "\<not> is_dict v \<Longrightarrow> py_get v k = Inl AttributeError"
  by (cases v) (simp_all add: is_dict_def)

lemma poll_once_non_terminal:
  assumes "\<not> deadline_passed timeout_s start_time now" and "non_terminal get"
  shows "poll_once timeout_s job_id poll_s start_time now get = Sleep poll_s"
proof (cases get)
  case (Inl e)
  with assms show ?thesis by (simp add: non_terminal_def)
next
  case (Inr response)
  show ?thesis
  proof (cases "status_code response = 200")
    case False
    with Inr assms show ?thesis by (simp add: poll_once_def)
  next
    case True
    with Inr assms obtain d st where
      body: "json_body response = Inr (PDict d)"
      and st: "st = (case map_of d (codes ''status'') of None \<Rightarrow> PNone | Some v \<Rightarrow> v)"
      and nt: "st \<notin> {PStr ''finished'', PStr ''ok'', PStr ''failed'', PStr ''error''}"
      by (auto simp: non_terminal_def status_field_def split: sum.splits pyval.splits)
    with Inr True assms(1) show ?thesis
      by (simp add: poll_once_def)
  qed
qed

lemma wait_loop_quiet_prefix:
  assumes "quiet timeout_s start_time before"
  shows "wait_loop timeout_s job_id poll_s start_time (before @ rest) =
           (case wait_loop timeout_s job_id poll_s start_time rest of
              None \<Rightarrow> None
            | Some (sleeps, r) \<Rightarrow> Some (replicate (length before) poll_s @ sleeps, r))"
  using assms
proof (induction before)
  case Nil
  then show ?case by (simp split: option.splits)
next
  case (Cons x before)
  obtain now get where x: "x = (now, get)" by (cases x)
  from Cons.prems x have dl: "\<not> deadline_passed timeout_s start_time now"
    and nt: "non_terminal get"
    and q: "quiet timeout_s start_time before"
    by (simp_all add: quiet_def)
  from dl nt have "poll_once timeout_s job_id poll_s start_time now get = Sleep poll_s"
    by (rule poll_once_non_terminal)
  with Cons.IH [OF q] x show ?case
    by (simp add: after_sleep_def split: option.splits)
qed



text \<open>
  C3, as the code has it. Before the deadline, a response with status code 200 whose body
  is an object is classified by its status field, by equality of strings:
  \<^verbatim>\<open>finished\<close> and \<^verbatim>\<open>ok\<close> return the whole body at once, \<^verbatim>\<open>failed\<close> and
  \<^verbatim>\<open>error\<close> raise the error of a failed job, and any other value, a missing field
  included, makes the loop sleep one poll interval and try again. A response with another
  status code, 404 included, also makes it sleep and try again. A response with status
  code 200 whose body cannot be decoded, or is not an object, and a request that fails,
  end the call with that exception.
\<close>

theorem poll_classification:
  assumes "\<not> deadline_passed timeout_s start_time now"
  shows
    "(status_code response = 200 \<and> json_body response = Inr (PDict d) \<and>
        st = (case map_of d (codes ''status'') of None \<Rightarrow> PNone | Some v \<Rightarrow> v) \<longrightarrow>
        wait_for_job timeout_s job_id poll_s start_time ((now, Inr response) # script) =
          (if st = PStr ''finished'' \<or> st = PStr ''ok'' then Some ([], Inr (PDict d))
           else if st = PStr ''failed'' \<or> st = PStr ''error'' then
             Some ([], Inl (RuntimeError
               [Lit ''Job '', Val job_id, Lit '' failed: '',
                Val (case map_of d (codes ''error'') of None \<Rightarrow> PNone | Some v \<Rightarrow> v)]))
           else after_sleep poll_s (wait_for_job timeout_s job_id poll_s start_time script)))
     \<and> (status_code response \<noteq> 200 \<longrightarrow>
        wait_for_job timeout_s job_id poll_s start_time ((now, Inr response) # script) =
          after_sleep poll_s (wait_for_job timeout_s job_id poll_s start_time script))
     \<and> (status_code response = 200 \<and> json_body response = Inl e \<longrightarrow>
        wait_for_job timeout_s job_id poll_s start_time ((now, Inr response) # script) =
          Some ([], Inl e))
     \<and> (status_code response = 200 \<and> json_body response = Inr v \<and> \<not> is_dict v \<longrightarrow>
        wait_for_job timeout_s job_id poll_s start_time ((now, Inr response) # script) =
          Some ([], Inl AttributeError))
     \<and> wait_for_job timeout_s job_id poll_s start_time ((now, Inl e) # script) = Some ([], Inl e)"
  using assms
  by (auto simp: wait_for_job_def poll_once_def py_get_not_dict)

theorem poll_classification_witness:
  "wait_for_job 300 (PStr ''J1'') 5 0
     [(0, Inr \<lparr>status_code = 404, text_body = Inr '''', json_body = Inl (LibraryError ''ContentTypeError'')\<rparr>),
      (5, Inr \<lparr>status_code = 200, text_body = Inr ''{}'',
               json_body = Inr (PDict [(codes ''status'', PStr ''working'')])\<rparr>),
      (10, Inr \<lparr>status_code = 200, text_body = Inr ''{}'',
               json_body = Inr (PDict [(codes ''status'', PStr ''finished'')])\<rparr>)]
     = Some ([5, 5], Inr (PDict [(codes ''status'', PStr ''finished'')]))"
proof -
  let ?r1 = "\<lparr>status_code = 404, text_body = Inr '''', json_body = Inl (LibraryError ''ContentTypeError'')\<rparr>"
  let ?r2 = "\<lparr>status_code = 200, text_body = Inr ''{}'',
               json_body = Inr (PDict [(codes ''status'', PStr ''working'')])\<rparr>"
  let ?r3 = "\<lparr>status_code = 200, text_body = Inr ''{}'',
               json_body = Inr (PDict [(codes ''status'', PStr ''finished'')])\<rparr>"
  have d0: "\<not> deadline_passed 300 0 0" by code_simp
  have d5: "\<not> deadline_passed 300 0 5" by code_simp
  have d10: "\<not> deadline_passed 300 0 10" by code_simp
  have s3: "wait_for_job 300 (PStr ''J1'') 5 0 [(10, Inr ?r3)]
      = Some ([], Inr (PDict [(codes ''status'', PStr ''finished'')]))"
    using poll_classification [OF d10, where response = ?r3
        and d = "[(codes ''status'', PStr ''finished'')]" and st = "PStr ''finished''"
        and job_id = "PStr ''J1''" and poll_s = 5 and script = "[]"]
    by simp
  have s2: "wait_for_job 300 (PStr ''J1'') 5 0 [(5, Inr ?r2), (10, Inr ?r3)]
      = after_sleep 5 (wait_for_job 300 (PStr ''J1'') 5 0 [(10, Inr ?r3)])"
    using poll_classification [OF d5, where response = ?r2
        and d = "[(codes ''status'', PStr ''working'')]" and st = "PStr ''working''"
        and job_id = "PStr ''J1''" and poll_s = 5 and script = "[(10, Inr ?r3)]"]
    by simp
  have s1: "wait_for_job 300 (PStr ''J1'') 5 0 [(0, Inr ?r1), (5, Inr ?r2), (10, Inr ?r3)]
      = after_sleep 5 (wait_for_job 300 (PStr ''J1'') 5 0 [(5, Inr ?r2), (10, Inr ?r3)])"
    using poll_classification [OF d0, where response = ?r1
        and job_id = "PStr ''J1''" and poll_s = 5 and script = "[(5, Inr ?r2), (10, Inr ?r3)]"]
    by simp
  show ?thesis
    by (simp add: s1 s2 s3 after_sleep_def)
qed

text \<open>
  C3 as stated has a malformed payload retried. A body that is a list, and a body that
  cannot be decoded, end the call at once, although the next reply would have reported
  success.
\<close>

theorem malformed_payload_ends_poll:
  "wait_for_job 300 (PStr ''J1'') 5 0
     [(0, Inr \<lparr>status_code = 200, text_body = Inr ''[]'', json_body = Inr (PList [])\<rparr>),
      (5, Inr \<lparr>status_code = 200, text_body = Inr ''{}'',
               json_body = Inr (PDict [(codes ''status'', PStr ''ok'')])\<rparr>)]
     = Some ([], Inl AttributeError)
   \<and> wait_for_job 300 (PStr ''J1'') 5 0
     [(0, Inr \<lparr>status_code = 200, text_body = Inr ''<html>'',
               json_body = Inl (LibraryError ''ContentTypeError'')\<rparr>),
      (5, Inr \<lparr>status_code = 200, text_body = Inr ''{}'',
               json_body = Inr (PDict [(codes ''status'', PStr ''ok'')])\<rparr>)]
     = Some ([], Inl (LibraryError ''ContentTypeError''))"
  by code_simp

subsection \<open>The deadline\<close>

























text \<open>Between the two bounds the rounding decides: with the clock readings 0.1 and 300.1,
  as binary64 has them, more than 300 seconds have elapsed and the test for a timeout of
  300 does not hold.\<close>

lemma deadline_rounding_example:
  "(300 :: rat) < 2639707515964621 / 8796093022208 - 3602879701896397 / 36028797018963968
   \<and> \<not> deadline_passed 300 (3602879701896397 / 36028797018963968)
         (2639707515964621 / 8796093022208)"
  by code_simp

subsection \<open>A failed job\<close>

text \<open>
  C5. A reply whose status field is \<^verbatim>\<open>failed\<close> or \<^verbatim>\<open>error\<close> makes the poll raise
  the error of a failed job, whose message ends with the reply's \<^verbatim>\<open>error\<close> field
  as it is.
\<close>

theorem wait_for_job_failed:
  assumes "quiet timeout_s start_time before"
    and "\<not> deadline_passed timeout_s start_time now"
    and "status_code response = 200"
    and "json_body response = Inr (PDict d)"
    and "map_of d (codes ''status'') = Some (PStr ''failed'') \<or> map_of d (codes ''status'') = Some (PStr ''error'')"
  shows "wait_for_job timeout_s job_id poll_s start_time (before @ (now, Inr response) # script) =
           Some (replicate (length before) poll_s,
                 Inl (RuntimeError
                   [Lit ''Job '', Val job_id, Lit '' failed: '',
                    Val (case map_of d (codes ''error'') of None \<Rightarrow> PNone | Some msg \<Rightarrow> msg)]))"
  using assms(2-5)
  by (auto simp: wait_for_job_def wait_loop_quiet_prefix [OF assms(1)] poll_once_def)

theorem wait_for_job_failed_witness:
  "wait_for_job 300 (PStr ''J1'') 5 0
     [(0, Inr \<lparr>status_code = 404, text_body = Inr '''', json_body = Inl (LibraryError ''ContentTypeError'')\<rparr>),
      (5, Inr \<lparr>status_code = 200, text_body = Inr ''{}'',
               json_body = Inr (PDict [(codes ''status'', PStr ''failed''), (codes ''error'', PStr ''no proxies left'')])\<rparr>)]
     = Some ([5], Inl (RuntimeError
         [Lit ''Job '', Val (PStr ''J1''), Lit '' failed: '', Val (PStr ''no proxies left'')]))"
proof -
  let ?before = "[(0, Inr \<lparr>status_code = 404, text_body = Inr '''', json_body = Inl (LibraryError ''ContentTypeError'')\<rparr>)]"
  let ?r = "\<lparr>status_code = 200, text_body = Inr ''{}'',
               json_body = Inr (PDict [(codes ''status'', PStr ''failed''), (codes ''error'', PStr ''no proxies left'')])\<rparr>"
  have q: "quiet 300 0 ?before" by code_simp
  have d: "\<not> deadline_passed 300 0 5" by code_simp
  from wait_for_job_failed [OF q d, where response = ?r and script = "[]" and poll_s = 5
      and d = "[(codes ''status'', PStr ''failed''), (codes ''error'', PStr ''no proxies left'')]"]
  show ?thesis by simp
qed

subsection \<open>The whole fetch\<close>

lemma decode_rows_all:
  assumes "\<forall>r\<in>set rows. \<exists>m. from_csv_row py r = Inr m"
  shows "decode_rows py rows stop results =
           (case stop of
              Some e \<Rightarrow> Inl e
            | None \<Rightarrow> Inr (results @ map (\<lambda>r. projr (from_csv_row py r)) rows))"
  using assms
proof (induction rows arbitrary: results)
  case Nil
  then show ?case by (cases stop) simp_all
next
  case (Cons r rows)
  then obtain m where m: "from_csv_row py r = Inr m" by auto
  from Cons have "decode_rows py rows stop (results @ [m]) =
      (case stop of
         Some e \<Rightarrow> Inl e
       | None \<Rightarrow> Inr ((results @ [m]) @ map (\<lambda>r. projr (from_csv_row py r)) rows))"
    by simp
  with m show ?case by (simp add: and_then_def split: option.splits)
qed

lemma decode_rows_first_failure:
  assumes "i < length rows"
    and "from_csv_row py (rows ! i) = Inl e"
    and "\<forall>j<i. \<exists>m. from_csv_row py (rows ! j) = Inr m"
  shows "decode_rows py rows stop results = Inl e"
  using assms
proof (induction rows arbitrary: i results)
  case Nil
  then show ?case by simp
next
  case (Cons r rows)
  show ?case
  proof (cases i)
    case 0
    with Cons.prems show ?thesis by (simp add: and_then_def)
  next
    case (Suc k)
    with Cons.prems obtain m where m: "from_csv_row py r = Inr m" by fastforce
    from Suc Cons.prems have "k < length rows" "from_csv_row py (rows ! k) = Inl e"
      "\<forall>j<k. \<exists>m. from_csv_row py (rows ! j) = Inr m"
      by auto
    then have "decode_rows py rows stop (results @ [m]) = Inl e"
      by (rule Cons.IH)
    with m show ?thesis by (simp add: and_then_def)
  qed
qed

lemma decode_rows_Inr:
  assumes "decode_rows py rows stop results = Inr out"
  shows "stop = None \<and> (\<forall>r\<in>set rows. \<exists>m. from_csv_row py r = Inr m)"
  using assms
proof (induction rows arbitrary: results)
  case Nil
  then show ?case by (cases stop) simp_all
next
  case (Cons r rows)
  then obtain m where m: "from_csv_row py r = Inr m"
    by (cases "from_csv_row py r") (simp_all add: and_then_def)
  with Cons.prems have "decode_rows py rows stop (results @ [m]) = Inr out"
    by (simp add: and_then_def)
  from Cons.IH [OF this] m show ?case by auto
qed

text \<open>
  C1. \<^verbatim>\<open>fetch_places\<close> runs submit, poll, download and the decoding of each row in
  this order. The exception of the first stage that fails is the exception of the call, and
  then no result is returned; when every stage succeeds the result has one record for each
  row of the payload, in the order of the rows.
\<close>

theorem fetch_places_composition:
  "(submit_job (submit_reply w) = Inl e \<longrightarrow> fetch_places py timeout_s dict_reader w = Some (Inl e))
   \<and> (submit_job (submit_reply w) = Inr job_id \<and>
        wait_for_job timeout_s job_id 5 (start_clock w) (poll_script w) = Some (sleeps, Inl e) \<longrightarrow>
        fetch_places py timeout_s dict_reader w = Some (Inl e))
   \<and> (submit_job (submit_reply w) = Inr job_id \<and>
        wait_for_job timeout_s job_id 5 (start_clock w) (poll_script w) =
          Some (sleeps, Inr job_details) \<and>
        download_csv (download_reply w) = Inl e \<longrightarrow>
        fetch_places py timeout_s dict_reader w = Some (Inl e))
   \<and> (submit_job (submit_reply w) = Inr job_id \<and>
        wait_for_job timeout_s job_id 5 (start_clock w) (poll_script w) =
          Some (sleeps, Inr job_details) \<and>
        download_csv (download_reply w) = Inr csv_content \<and>
        dict_reader csv_content = (rows, stop) \<longrightarrow>
        (\<forall>i<length rows.
            from_csv_row py (rows ! i) = Inl e \<and> (\<forall>j<i. \<exists>m. from_csv_row py (rows ! j) = Inr m) \<longrightarrow>
            fetch_places py timeout_s dict_reader w = Some (Inl e))
        \<and> ((\<forall>r\<in>set rows. \<exists>m. from_csv_row py r = Inr m) \<and> stop = Some e \<longrightarrow>
            fetch_places py timeout_s dict_reader w = Some (Inl e))
        \<and> ((\<forall>r\<in>set rows. \<exists>m. from_csv_row py r = Inr m) \<and> stop = None \<longrightarrow>
            (\<exists>results. fetch_places py timeout_s dict_reader w = Some (Inr results)
               \<and> length results = length rows
               \<and> (\<forall>i<length rows. from_csv_row py (rows ! i) = Inr (results ! i)))))
   \<and> (fetch_places py timeout_s dict_reader w = Some (Inr results) \<longrightarrow>
        (\<exists>job_id sleeps job_details csv_content rows.
            submit_job (submit_reply w) = Inr job_id
          \<and> wait_for_job timeout_s job_id 5 (start_clock w) (poll_script w) =
              Some (sleeps, Inr job_details)
          \<and> download_csv (download_reply w) = Inr csv_content
          \<and> dict_reader csv_content = (rows, None)
          \<and> length results = length rows
          \<and> (\<forall>i<length rows. from_csv_row py (rows ! i) = Inr (results ! i))))"
proof -
  have p1: "submit_job (submit_reply w) = Inl e \<longrightarrow>
      fetch_places py timeout_s dict_reader w = Some (Inl e)"
    by (simp add: fetch_places_def)
  have p2: "submit_job (submit_reply w) = Inr job_id \<and>
      wait_for_job timeout_s job_id 5 (start_clock w) (poll_script w) = Some (sleeps, Inl e) \<longrightarrow>
      fetch_places py timeout_s dict_reader w = Some (Inl e)"
    by (simp add: fetch_places_def)
  have p3: "submit_job (submit_reply w) = Inr job_id \<and>
      wait_for_job timeout_s job_id 5 (start_clock w) (poll_script w) =
        Some (sleeps, Inr job_details) \<and>
      download_csv (download_reply w) = Inl e \<longrightarrow>
      fetch_places py timeout_s dict_reader w = Some (Inl e)"
    by (simp add: fetch_places_def)
  have p4: "(\<forall>i<length rows.
            from_csv_row py (rows ! i) = Inl e \<and> (\<forall>j<i. \<exists>m. from_csv_row py (rows ! j) = Inr m) \<longrightarrow>
            fetch_places py timeout_s dict_reader w = Some (Inl e))
        \<and> ((\<forall>r\<in>set rows. \<exists>m. from_csv_row py r = Inr m) \<and> stop = Some e \<longrightarrow>
            fetch_places py timeout_s dict_reader w = Some (Inl e))
        \<and> ((\<forall>r\<in>set rows. \<exists>m. from_csv_row py r = Inr m) \<and> stop = None \<longrightarrow>
            (\<exists>results. fetch_places py timeout_s dict_reader w = Some (Inr results)
               \<and> length results = length rows
               \<and> (\<forall>i<length rows. from_csv_row py (rows ! i) = Inr (results ! i))))"
    if h: "submit_job (submit_reply w) = Inr job_id \<and>
        wait_for_job timeout_s job_id 5 (start_clock w) (poll_script w) =
          Some (sleeps, Inr job_details) \<and>
        download_csv (download_reply w) = Inr csv_content \<and>
        dict_reader csv_content = (rows, stop)"
  proof -
    from h have f: "fetch_places py timeout_s dict_reader w = Some (decode_rows py rows stop [])"
      by (simp add: fetch_places_def)
    have x: "\<forall>i<length rows.
        from_csv_row py (rows ! i) = Inl e \<and> (\<forall>j<i. \<exists>m. from_csv_row py (rows ! j) = Inr m) \<longrightarrow>
        decode_rows py rows stop [] = Inl e"
      using decode_rows_first_failure [of _ rows py e stop "[]"] by blast
    have y: "(\<forall>r\<in>set rows. \<exists>m. from_csv_row py r = Inr m) \<and> stop = Some e \<longrightarrow>
        decode_rows py rows stop [] = Inl e"
      using decode_rows_all [of rows py "Some e" "[]"] by auto
    have z: "\<exists>results. decode_rows py rows stop [] = Inr results
               \<and> length results = length rows
               \<and> (\<forall>i<length rows. from_csv_row py (rows ! i) = Inr (results ! i))"
      if all: "\<forall>r\<in>set rows. \<exists>m. from_csv_row py r = Inr m" and none: "stop = None"
    proof -
      let ?results = "map (\<lambda>r. projr (from_csv_row py r)) rows"
      have "decode_rows py rows stop [] = Inr ?results"
        using all none decode_rows_all [of rows py stop "[]"] by simp
      moreover have "from_csv_row py (rows ! i) = Inr (?results ! i)" if "i < length rows" for i
      proof -
        from that all obtain m where "from_csv_row py (rows ! i) = Inr m"
          using nth_mem by blast
        with that show ?thesis by simp
      qed
      ultimately show ?thesis by auto
    qed
    from x y z show ?thesis
      unfolding f by simp
  qed
  have p5: "\<exists>job_id sleeps job_details csv_content rows.
            submit_job (submit_reply w) = Inr job_id
          \<and> wait_for_job timeout_s job_id 5 (start_clock w) (poll_script w) =
              Some (sleeps, Inr job_details)
          \<and> download_csv (download_reply w) = Inr csv_content
          \<and> dict_reader csv_content = (rows, None)
          \<and> length results = length rows
          \<and> (\<forall>i<length rows. from_csv_row py (rows ! i) = Inr (results ! i))"
    if f: "fetch_places py timeout_s dict_reader w = Some (Inr results)"
  proof -
    from f obtain job_id where s: "submit_job (submit_reply w) = Inr job_id"
      by (cases "submit_job (submit_reply w)") (simp_all add: fetch_places_def)
    from f s obtain sleeps job_details where
      p: "wait_for_job timeout_s job_id 5 (start_clock w) (poll_script w) =
            Some (sleeps, Inr job_details)"
      by (auto simp: fetch_places_def split: option.splits sum.splits)
    from f s p obtain csv_content where d: "download_csv (download_reply w) = Inr csv_content"
      by (cases "download_csv (download_reply w)") (simp_all add: fetch_places_def)
    obtain rows stop where r: "dict_reader csv_content = (rows, stop)"
      by (cases "dict_reader csv_content")
    from f s p d r have dec: "decode_rows py rows stop [] = Inr results"
      by (simp add: fetch_places_def)
    from decode_rows_Inr [OF dec] have none: "stop = None"
      and all: "\<forall>r\<in>set rows. \<exists>m. from_csv_row py r = Inr m"
      by simp_all
    from dec none decode_rows_all [OF all, of None "[]"]
    have res: "results = map (\<lambda>r. projr (from_csv_row py r)) rows"
      by simp
    have "from_csv_row py (rows ! i) = Inr (results ! i)" if "i < length rows" for i
    proof -
      from that all obtain m where "from_csv_row py (rows ! i) = Inr m"
        using nth_mem by blast
      with that res show ?thesis by simp
    qed
    with s p d r none res show ?thesis by auto
  qed
  from p1 p2 p3 p4 p5 show ?thesis by blast
qed

theorem fetch_places_composition_witness:
  "\<exists>results.
     fetch_places \<lparr>int_max_str_digits = 4300, room = (\<lambda>n d. d < 900)\<rparr> 300 (\<lambda>csv_content. ([[''title'' \<mapsto> ''A''], [''title'' \<mapsto> ''B'']], None))
       \<lparr>submit_reply = Inr \<lparr>status_code = 201, text_body = Inr ''{}'',
                             json_body = Inr (PDict [(codes ''id'', PStr ''J1'')])\<rparr>,
        start_clock = 0,
        poll_script = [(0, Inr \<lparr>status_code = 200, text_body = Inr ''{}'',
                                 json_body = Inr (PDict [(codes ''status'', PStr ''ok'')])\<rparr>)],
        download_reply = Inr \<lparr>status_code = 200, text_body = Inr ''title'',
                               json_body = Inl (LibraryError ''ContentTypeError'')\<rparr>\<rparr>
       = Some (Inr results)
     \<and> length results = 2
     \<and> from_csv_row \<lparr>int_max_str_digits = 4300, room = (\<lambda>n d. d < 900)\<rparr> [''title'' \<mapsto> ''A''] = Inr (results ! 0)
     \<and> from_csv_row \<lparr>int_max_str_digits = 4300, room = (\<lambda>n d. d < 900)\<rparr> [''title'' \<mapsto> ''B''] = Inr (results ! 1)"
proof -
  let ?py = "\<lparr>int_max_str_digits = 4300, room = (\<lambda>n d. d < 900)\<rparr>"
  let ?reader = "\<lambda>csv_content :: string. ([[''title'' \<mapsto> ''A''], [''title'' \<mapsto> ''B'']], None :: exn option)"
  let ?w = "\<lparr>submit_reply = Inr \<lparr>status_code = 201, text_body = Inr ''{}'',
                             json_body = Inr (PDict [(codes ''id'', PStr ''J1'')])\<rparr>,
        start_clock = 0,
        poll_script = [(0, Inr \<lparr>status_code = 200, text_body = Inr ''{}'',
                                 json_body = Inr (PDict [(codes ''status'', PStr ''ok'')])\<rparr>)],
        download_reply = Inr \<lparr>status_code = 200, text_body = Inr ''title'',
                               json_body = Inl (LibraryError ''ContentTypeError'')\<rparr>\<rparr>"
  let ?rows = "[[''title'' \<mapsto> ''A''], [''title'' \<mapsto> ''B'']] :: row list"
  have s: "submit_job (submit_reply ?w) = Inr (PStr ''J1'')"
    by (simp add: submit_job_def and_then_def)
  have p: "wait_for_job 300 (PStr ''J1'') 5 (start_clock ?w) (poll_script ?w)
      = Some ([], Inr (PDict [(codes ''status'', PStr ''ok'')]))"
    by code_simp
  have d: "download_csv (download_reply ?w) = Inr ''title''"
    by (simp add: download_csv_def and_then_def)
  have r: "?reader ''title'' = (?rows, None)"
    by simp
  have ok: "\<forall>row\<in>set ?rows. \<exists>m. from_csv_row ?py row = Inr m"
  proof
    fix row :: row
    assume "row \<in> set ?rows"
    then have a: "row = [''title'' \<mapsto> ''A''] \<or> row = [''title'' \<mapsto> ''B'']"
      by simp
    then have "parse_int row ''review_count'' (PInt 0) = Inr (PInt 0)"
      by (auto simp: parse_int_def dict_get_def)
    moreover from a have "emails_cell ?py row = Inr (PList [])"
      by (auto simp: emails_cell_def)
    moreover from a have "\<forall>f\<in>{''open_hours'', ''popular_times'', ''reviews_per_rating'', ''images'',
        ''reservations'', ''order_online'', ''menu'', ''owner'', ''complete_address'',
        ''about'', ''user_reviews''}. row f = None"
      by auto
    ultimately show "\<exists>m. from_csv_row ?py row = Inr m"
      by (rule from_csv_row_returns_plain [rotated])
  qed
  from fetch_places_composition [where py = ?py and w = ?w and dict_reader = ?reader and timeout_s = 300
      and job_id = "PStr ''J1''" and sleeps = "[]"
      and job_details = "PDict [(codes ''status'', PStr ''ok'')]"
      and csv_content = "''title''" and rows = ?rows and stop = None]
    s p d r ok
  have "\<exists>results. fetch_places ?py 300 ?reader ?w = Some (Inr results)
     \<and> length results = length ?rows
     \<and> (\<forall>i<length ?rows. from_csv_row ?py (?rows ! i) = Inr (results ! i))"
    by blast
  then obtain results where f: "fetch_places ?py 300 ?reader ?w = Some (Inr results)"
    and l: "length results = length ?rows"
    and n: "\<forall>i<length ?rows. from_csv_row ?py (?rows ! i) = Inr (results ! i)"
    by blast
  from n [rule_format, of 0] n [rule_format, of 1]
  have "from_csv_row ?py [''title'' \<mapsto> ''A''] = Inr (results ! 0)"
    and "from_csv_row ?py [''title'' \<mapsto> ''B''] = Inr (results ! 1)"
    by simp_all
  with f l show ?thesis by simp
qed

end
